theory Spec2Isabelle
  imports Complex_Main "HOL-Library.AList" "HOL-Library.Sublist"
begin

section \<open>JavaScript values\<close>

text \<open>
  The handlers of \<^verbatim>\<open>routes/items.js\<close> and \<^verbatim>\<open>routes/stats.js\<close> and the worker
  of \<^verbatim>\<open>utils/worker.js\<close> work on values produced by \<^verbatim>\<open>JSON.parse\<close>: the request
  body and the records of the data file. A number is an IEEE double: \<open>NaN\<close>, the two
  infinities (\<^verbatim>\<open>JSON.parse("1e999")\<close> is \<^verbatim>\<open>Infinity\<close>) or a finite value. Finite values
  are idealised as rationals, so rounding is not modelled. A missing property
  (\<^verbatim>\<open>undefined\<close>) is \<open>None\<close>.
\<close>

datatype jsnum = NaN | PosInf | NegInf | Fin rat

datatype jsval =
    JNull
  | JBool bool
  | JNum jsnum
  | JStr string
  | JArr "jsval list"
  | JObj "(string \<times> jsval) list"

type_synonym obj = "(string \<times> jsval) list"

text \<open>\<^verbatim>\<open>o.k\<close>: the first binding of the key.\<close>

definition get_prop :: "obj \<Rightarrow> string \<Rightarrow> jsval option" where
  "get_prop ob k = map_of ob k"








section \<open>Strings\<close>

text \<open>
  Strings are modelled on ASCII: \<^verbatim>\<open>trim\<close> and \<^verbatim>\<open>parseInt\<close> strip the ASCII white space
  (space, TAB, LF, VT, FF, CR) and \<^verbatim>\<open>toLowerCase\<close> maps \<open>A\<close>..\<open>Z\<close>.
\<close>

definition is_space :: "char \<Rightarrow> bool" where
  "is_space c = (of_char c \<in> {32, 9, 10, 11, 12, 13 :: nat})"

definition is_digit :: "char \<Rightarrow> bool" where
  "is_digit c = (48 \<le> (of_char c :: nat) \<and> (of_char c :: nat) \<le> 57)"

definition digit_val :: "char \<Rightarrow> int" where
  "digit_val c = int (of_char c) - 48"


definition to_lower :: "char \<Rightarrow> char" where
  "to_lower c =
     (if 65 \<le> (of_char c :: nat) \<and> (of_char c :: nat) \<le> 90
      then char_of (of_char c + 32 :: nat) else c)"

definition toLowerCase :: "string \<Rightarrow> string" where
  "toLowerCase s = map to_lower s"

text \<open>\<^verbatim>\<open>s.includes(t)\<close>: \<open>t\<close> occurs in \<open>s\<close> at some position.\<close>

fun str_includes :: "string \<Rightarrow> string \<Rightarrow> bool" where
  "str_includes [] t = (t = [])"
| "str_includes (c # cs) t = (prefix t (c # cs) \<or> str_includes cs t)"

text \<open>
  \<^verbatim>\<open>parseInt(s, 10)\<close>: skip leading white space, read an optional sign, then the
  longest run of decimal digits; whatever follows is ignored. No digit gives
  \<open>NaN\<close>, here \<open>None\<close>.
\<close>

fun digits_value :: "int \<Rightarrow> string \<Rightarrow> int" where
  "digits_value acc [] = acc"
| "digits_value acc (c # cs) = digits_value (acc * 10 + digit_val c) cs"

fun strip_sign :: "string \<Rightarrow> int \<times> string" where
  "strip_sign [] = (1, [])"
| "strip_sign (c # cs) =
     (if c = CHR ''-'' then (- 1, cs)
      else if c = CHR ''+'' then (1, cs)
      else (1, c # cs))"

definition parseInt10 :: "string \<Rightarrow> int option" where
  "parseInt10 s =
     (let (sign, rest) = strip_sign (dropWhile is_space s);
          z = takeWhile is_digit rest
      in if z = [] then None else Some (sign * digits_value 0 z))"

section \<open>The data file\<close>

text \<open>
  \<^verbatim>\<open>new Error(msg)\<close> with \<^verbatim>\<open>err.status = n\<close> is \<open>HttpError n msg\<close>; the other errors
  are the ones the engine and the file system raise.
\<close>

datatype error =
    HttpError nat string
  | TypeError
  | IOError string
  | SyntaxError string

datatype file_state =
    Missing
  | Unreadable string
  | Malformed string
  | Content "obj list"

text \<open>
  The world a handler runs in: the data file, whether the next write fails, and
  how often \<^verbatim>\<open>fs.readFile\<close> and \<^verbatim>\<open>fs.writeFile\<close> have been called.
\<close>

record world =
  data_file :: file_state
  write_fault :: "string option"
  reads :: nat
  writes :: nat

definition readData :: "world \<Rightarrow> (error + obj list) \<times> world" where
  "readData w =
     ((case data_file w of
         Missing \<Rightarrow> Inr []
       | Unreadable m \<Rightarrow> Inl (IOError m)
       | Malformed m \<Rightarrow> Inl (SyntaxError m)
       | Content xs \<Rightarrow> Inr xs),
      w\<lparr>reads := reads w + 1\<rparr>)"


section \<open>GET /api/items\<close>

record query =
  rawPage :: "string option"
  rawLimit :: "string option"
  rawQ :: "string option"

record page_result =
  items :: "obj list"
  currentPage :: int
  itemsPerPage :: int
  totalItems :: int
  totalPages :: int
  hasPreviousPage :: bool
  hasNextPage :: bool

definition invalid_params :: string where
  "invalid_params = ''Invalid page or limit parameters. Must be positive numbers.''"

text \<open>
  The block the handler runs for \<^verbatim>\<open>page\<close> and again for \<^verbatim>\<open>limit\<close>: the default
  when the parameter is absent, else \<^verbatim>\<open>parseInt\<close> and the test
  \<^verbatim>\<open>isNaN(n) || n < 1\<close>.
\<close>

definition parse_param :: "string option \<Rightarrow> int \<Rightarrow> error + int" where
  "parse_param raw dflt =
     (case raw of
        None \<Rightarrow> Inr dflt
      | Some s \<Rightarrow>
          (case parseInt10 s of
             None \<Rightarrow> Inl (HttpError 400 invalid_params)
           | Some n \<Rightarrow> if n < 1 then Inl (HttpError 400 invalid_params) else Inr n))"

text \<open>
  The parameters on which that block throws: supplied, and \<^verbatim>\<open>parseInt\<close> gives
  \<open>NaN\<close> or a number below 1.
\<close>

definition rejected :: "string option \<Rightarrow> bool" where
  "rejected raw =
     (case raw of
        None \<Rightarrow> False
      | Some s \<Rightarrow> (case parseInt10 s of None \<Rightarrow> True | Some n \<Rightarrow> n < 1))"

text \<open>
  \<^verbatim>\<open>filteredItems.filter(item => item.name.toLowerCase().includes(q.toLowerCase()))\<close>.
  A name that is not a string has no \<^verbatim>\<open>toLowerCase\<close>: the callback throws.
\<close>

fun name_filter :: "string \<Rightarrow> obj list \<Rightarrow> error + obj list" where
  "name_filter t [] = Inr []"
| "name_filter t (item # rest) =
     (case get_prop item ''name'' of
        Some (JStr n) \<Rightarrow>
          (case name_filter t rest of
             Inl e \<Rightarrow> Inl e
           | Inr kept \<Rightarrow>
               Inr (if str_includes (toLowerCase n) (toLowerCase t) then item # kept else kept))
      | _ \<Rightarrow> Inl TypeError)"

text \<open>\<^verbatim>\<open>if (q) { ... }\<close>: an absent or empty \<open>q\<close> filters nothing.\<close>

definition apply_q :: "string option \<Rightarrow> obj list \<Rightarrow> error + obj list" where
  "apply_q qo allItems =
     (case qo of
        None \<Rightarrow> Inr allItems
      | Some t \<Rightarrow> if t = [] then Inr allItems else name_filter t allItems)"

text \<open>\<^verbatim>\<open>xs.slice(s, e)\<close>, negative indices counted from the end.\<close>

definition slice :: "'a list \<Rightarrow> int \<Rightarrow> int \<Rightarrow> 'a list" where
  "slice xs s e =
     (let len = int (length xs);
          k = (if s < 0 then max (len + s) 0 else min s len);
          final = (if e < 0 then max (len + e) 0 else min e len)
      in take (nat (final - k)) (drop (nat k) xs))"

definition Math_ceil :: "rat \<Rightarrow> int" where
  "Math_ceil x = \<lceil>x\<rceil>"

text \<open>
  The pagination of lines 63 to 102. It runs with \<open>limitNum \<ge> 1\<close> only (the
  validation above), so the division is never by zero.
\<close>

definition paginate :: "obj list \<Rightarrow> int \<Rightarrow> int \<Rightarrow> page_result" where
  "paginate filteredItems pageNum limitNum =
     (let total = int (length filteredItems);
          pages = Math_ceil (of_int total / of_int limitNum);
          (pageNum', pages', paginatedItems) =
            (if total = 0 then (1, 0, [])
             else if pageNum > pages then (pageNum, pages, [])
             else
               (let startIndex = (pageNum - 1) * limitNum;
                    endIndex = startIndex + limitNum
                in (pageNum, pages, slice filteredItems startIndex endIndex)))
      in \<lparr>items = paginatedItems,
          currentPage = pageNum',
          itemsPerPage = limitNum,
          totalItems = total,
          totalPages = pages',
          hasPreviousPage = (pageNum' > 1),
          hasNextPage = (pageNum' < pages')\<rparr>)"

definition get_items :: "query \<Rightarrow> world \<Rightarrow> (error + page_result) \<times> world" where
  "get_items req w =
     (case parse_param (rawPage req) 1 of
        Inl e \<Rightarrow> (Inl e, w)
      | Inr pageNum \<Rightarrow>
     (case parse_param (rawLimit req) 2 of
        Inl e \<Rightarrow> (Inl e, w)
      | Inr limitNum \<Rightarrow>
     (case readData w of
        (Inl e, w') \<Rightarrow> (Inl e, w')
      | (Inr allItems, w') \<Rightarrow>
     (case apply_q (rawQ req) allItems of
        Inl e \<Rightarrow> (Inl e, w')
      | Inr filteredItems \<Rightarrow> (Inr (paginate filteredItems pageNum limitNum), w')))))"

section \<open>GET /api/items/:id\<close>




section \<open>POST /api/items\<close>





section \<open>GET /api/stats and the worker\<close>

record stats =
  total :: nat
  averagePrice :: jsnum



text \<open>
  The route creates a worker, posts the records and reacts to the events of
  the worker, which the event loop delivers one at a time.
\<close>

datatype worker_event = Message stats | ErrorEvent error | Exit int

datatype reply = Json stats | Next error

datatype log_line = WorkerThreadError error | WorkerStopped int

record request =
  replies :: "reply list"
  console :: "log_line list"
  workers :: nat
  posted :: "obj list list"
  terminations :: nat

definition start_stats :: "world \<Rightarrow> request \<times> world" where
  "start_stats w =
     (case readData w of
        (Inl e, w') \<Rightarrow>
          (\<lparr>replies = [Next e], console = [], workers = 0, posted = [], terminations = 0\<rparr>, w')
      | (Inr its, w') \<Rightarrow>
          (\<lparr>replies = [], console = [], workers = 1, posted = [its], terminations = 0\<rparr>, w'))"

fun on_event :: "request \<Rightarrow> worker_event \<Rightarrow> request" where
  "on_event r (Message s) =
     r\<lparr>replies := replies r @ [Json s], terminations := terminations r + 1\<rparr>"
| "on_event r (ErrorEvent e) =
     r\<lparr>console := console r @ [WorkerThreadError e],
       terminations := terminations r + 1,
       replies := replies r @ [Next e]\<rparr>"
| "on_event r (Exit code) =
     (if code \<noteq> 0 then r\<lparr>console := console r @ [WorkerStopped code]\<rparr> else r)"

text \<open>The request as a whole: the events reach the handlers only if a worker was made.\<close>

definition get_stats :: "world \<Rightarrow> worker_event list \<Rightarrow> request \<times> world" where
  "get_stats w evs =
     (case start_stats w of
        (r, w') \<Rightarrow> (if workers r = 0 then r else foldl on_event r evs, w'))"

section \<open>The specification's own notions\<close>









text \<open>
  The response an event of the worker gives rise to: a result, a failure, or,
  for an exit, none.
\<close>

fun reply_of :: "worker_event \<Rightarrow> reply list" where
  "reply_of (Message s) = [Json s]"
| "reply_of (ErrorEvent e) = [Next e]"
| "reply_of (Exit code) = []"





text \<open>The store of the specification's scenarios.\<close>

definition laptop :: obj where
  "laptop = [(''id'', JNum (Fin 1)), (''name'', JStr ''Laptop''), (''price'', JNum (Fin 1200))]"

definition mouse :: obj where
  "mouse = [(''id'', JNum (Fin 2)), (''name'', JStr ''Mouse''), (''price'', JNum (Fin 25))]"

definition keyboard :: obj where
  "keyboard = [(''id'', JNum (Fin 3)), (''name'', JStr ''Keyboard''), (''price'', JNum (Fin 50))]"


definition store3 :: world where
  "store3 = \<lparr>data_file = Content [laptop, mouse, keyboard],
             write_fault = None, reads = 0, writes = 0\<rparr>"

section \<open>Properties of the query\<close>










lemma parse_param_rejected:
  "rejected raw \<Longrightarrow> parse_param raw d = Inl (HttpError 400 invalid_params)"
  by (auto simp: rejected_def parse_param_def split: option.splits)

lemma parse_param_accepted:
  "\<not> rejected raw \<Longrightarrow> \<exists>n. parse_param raw d = Inr n"
  by (auto simp: rejected_def parse_param_def split: option.splits)

lemma get_items_rejected:
  assumes "rejected (rawPage req) \<or> rejected (rawLimit req)"
  shows "get_items req w = (Inl (HttpError 400 invalid_params), w)"
proof (cases "rejected (rawPage req)")
  case True
  then show ?thesis by (simp add: get_items_def parse_param_rejected)
next
  case False
  with assms have lim: "rejected (rawLimit req)" by simp
  from False obtain n where "parse_param (rawPage req) 1 = Inr n"
    using parse_param_accepted by blast
  with lim show ?thesis by (simp add: get_items_def parse_param_rejected)
qed

lemma get_items_reads:
  assumes "\<not> rejected (rawPage req)" "\<not> rejected (rawLimit req)"
  shows "reads (snd (get_items req w)) = reads w + 1"
proof -
  obtain p where p: "parse_param (rawPage req) 1 = Inr p"
    using assms(1) parse_param_accepted by blast
  obtain l where l: "parse_param (rawLimit req) 2 = Inr l"
    using assms(2) parse_param_accepted by blast
  show ?thesis
    using p l by (simp add: get_items_def readData_def split: sum.splits file_state.splits)
qed




text \<open>
  C4. A request whose \<^verbatim>\<open>page\<close> or \<^verbatim>\<open>limit\<close> is rejected fails with the validation
  error and leaves the world as it was: \<^verbatim>\<open>readData\<close> has not run. Every other
  request reads the file once.
\<close>

theorem validation_precedes_load:
  "(rejected (rawPage req) \<or> rejected (rawLimit req) \<longrightarrow>
      get_items req w = (Inl (HttpError 400 invalid_params), w)) \<and>
   reads (snd (get_items req w)) =
     (if rejected (rawPage req) \<or> rejected (rawLimit req) then reads w else reads w + 1)"
  using get_items_rejected [of req w] get_items_reads [of req w] by auto

theorem validation_precedes_load_witness:
  "rejected (Some ''-5'') \<and> rejected (Some ''abc'') \<and>
   get_items \<lparr>rawPage = None, rawLimit = Some ''-5'', rawQ = None\<rparr> store3 =
     (Inl (HttpError 400 invalid_params), store3) \<and>
   get_items \<lparr>rawPage = Some ''abc'', rawLimit = None, rawQ = None\<rparr> store3 =
     (Inl (HttpError 400 invalid_params), store3) \<and>
   reads (snd (get_items \<lparr>rawPage = Some ''abc'', rawLimit = None, rawQ = None\<rparr> store3)) = reads store3"
proof -
  have a: "rejected (Some ''-5'')" by code_simp
  have b: "rejected (Some ''abc'')" by code_simp
  show ?thesis
    using a b
      validation_precedes_load [of "\<lparr>rawPage = None, rawLimit = Some ''-5'', rawQ = None\<rparr>" store3]
      validation_precedes_load [of "\<lparr>rawPage = Some ''abc'', rawLimit = None, rawQ = None\<rparr>" store3]
    by simp
qed












section \<open>Properties of the search\<close>












section \<open>Properties of the lookup by id\<close>







section \<open>Properties of the aggregation\<close>


lemma start_stats_loaded:
  assumes "fst (readData w) = Inr its"
  shows "fst (start_stats w) =
     \<lparr>replies = [], console = [], workers = 1, posted = [its], terminations = 0\<rparr>"
  using assms by (cases "readData w") (simp add: start_stats_def)

lemma get_stats_loaded:
  assumes "fst (readData w) = Inr its"
  shows "fst (get_stats w evs) = foldl on_event (fst (start_stats w)) evs"
  using start_stats_loaded [OF assms]
  by (cases "start_stats w") (simp add: get_stats_def)



lemma on_event_replies: "replies (on_event r ev) = replies r @ reply_of ev"
  by (cases ev) simp_all

lemma on_event_workers: "workers (on_event r ev) = workers r \<and> posted (on_event r ev) = posted r"
  by (cases ev) simp_all

lemma run_replies: "replies (foldl on_event r evs) = replies r @ concat (map reply_of evs)"
  by (induction evs arbitrary: r) (simp_all add: on_event_replies)

lemma run_workers: "workers (foldl on_event r evs) = workers r"
  by (induction evs arbitrary: r) (simp_all add: on_event_workers)

text \<open>
  C9. An error event of the worker is passed on to the caller as the failure
  of the request; no further worker is made and nothing is posted again. An exit
  event never answers the request, whatever came before: with a code other than
  0 it only adds a line to the console. So a worker that exits with no message and
  no error leaves the request without any answer, and an exit after an error
  leaves the one failure as the only answer.
\<close>

theorem worker_failure_handling:
  "replies (on_event r (ErrorEvent e)) = replies r @ [Next e] \<and>
   workers (on_event r (ErrorEvent e)) = workers r \<and>
   posted (on_event r (ErrorEvent e)) = posted r \<and>
   terminations (on_event r (ErrorEvent e)) = terminations r + 1 \<and>
   replies (on_event r (Exit code)) = replies r \<and>
   console (on_event r (Exit code)) =
     (if code \<noteq> 0 then console r @ [WorkerStopped code] else console r) \<and>
   replies (foldl on_event r evs) = replies r @ concat (map reply_of evs) \<and>
   (fst (readData w) = Inr its \<longrightarrow>
      replies (fst (get_stats w (evs @ [Exit code]))) = replies (fst (get_stats w evs)) \<and>
      replies (fst (get_stats w [Exit code])) = [] \<and>
      replies (fst (get_stats w [ErrorEvent e, Exit code])) = [Next e] \<and>
      workers (fst (get_stats w [ErrorEvent e, Exit code])) = 1)"
proof -
  have loaded: "replies (fst (get_stats w (evs @ [Exit code]))) = replies (fst (get_stats w evs)) \<and>
      replies (fst (get_stats w [Exit code])) = [] \<and>
      replies (fst (get_stats w [ErrorEvent e, Exit code])) = [Next e] \<and>
      workers (fst (get_stats w [ErrorEvent e, Exit code])) = 1"
    if ld: "fst (readData w) = Inr its"
  proof -
    have st: "replies (fst (start_stats w)) = []" "workers (fst (start_stats w)) = 1"
      using start_stats_loaded [OF ld] by simp_all
    have g: "fst (get_stats w es) = foldl on_event (fst (start_stats w)) es" for es
      using get_stats_loaded [OF ld] .
    show ?thesis
      unfolding g run_replies run_workers using st by simp
  qed
  have single: "replies (on_event r (ErrorEvent e)) = replies r @ [Next e] \<and>
   workers (on_event r (ErrorEvent e)) = workers r \<and>
   posted (on_event r (ErrorEvent e)) = posted r \<and>
   terminations (on_event r (ErrorEvent e)) = terminations r + 1 \<and>
   replies (on_event r (Exit code)) = replies r \<and>
   console (on_event r (Exit code)) =
     (if code \<noteq> 0 then console r @ [WorkerStopped code] else console r)"
    by simp
  from single run_replies [of r evs] loaded show ?thesis by blast
qed

theorem worker_failure_handling_witness:
  "replies (fst (get_stats store3 [Exit 1])) = [] \<and>
   console (fst (get_stats store3 [Exit 1])) = [WorkerStopped 1] \<and>
   replies (fst (get_stats store3 [ErrorEvent TypeError, Exit 1])) = [Next TypeError] \<and>
   workers (fst (get_stats store3 [ErrorEvent TypeError, Exit 1])) = 1"
proof -
  have ld: "fst (readData store3) = Inr [laptop, mouse, keyboard]" by code_simp
  let ?r0 = "\<lparr>replies = [], console = [], workers = 1, posted = [[laptop, mouse, keyboard]],
              terminations = 0\<rparr>"
  note A = worker_failure_handling
    [of ?r0 TypeError 1 "[]" store3 "[laptop, mouse, keyboard]"]
  have g: "fst (get_stats store3 [Exit 1]) = on_event ?r0 (Exit 1)"
    using get_stats_loaded [OF ld, of "[Exit 1]"] start_stats_loaded [OF ld] by simp
  from A have "console (on_event ?r0 (Exit 1)) =
     (if (1::int) \<noteq> 0 then console ?r0 @ [WorkerStopped 1] else console ?r0)" by blast
  then have c: "console (fst (get_stats store3 [Exit 1])) = [WorkerStopped 1]"
    unfolding g by simp
  from A ld have "replies (fst (get_stats store3 [Exit 1])) = [] \<and>
      replies (fst (get_stats store3 [ErrorEvent TypeError, Exit 1])) = [Next TypeError] \<and>
      workers (fst (get_stats store3 [ErrorEvent TypeError, Exit 1])) = 1" by blast
  with c show ?thesis by blast
qed

section \<open>Properties of the creation\<close>
















end
